theory Spec2Isabelle
  imports Main "HOL-Library.Word" "HOL-Library.Sublist"
begin

section \<open>JavaScript strings\<close>

text \<open>
  A JavaScript string is a sequence of 16-bit code units. String literals of the
  source are ASCII and are written \<open>lit ''...''\<close>.
\<close>

type_synonym jsstring = "16 word list"

definition lit :: "string \<Rightarrow> jsstring" where
  "lit s = map of_char s"

text \<open>
  \<^verbatim>\<open>String.prototype.trim\<close> removes leading and trailing white space and line
  terminators (ECMAScript: TAB, VT, FF, SP, NBSP, ZWNBSP and the other space
  separators; LF, CR, LS, PS).
\<close>

definition is_white_space :: "16 word \<Rightarrow> bool" where
  "is_white_space c \<longleftrightarrow>
     c \<in> {0x09, 0x0A, 0x0B, 0x0C, 0x0D, 0x20, 0xA0, 0x1680,
          0x2028, 0x2029, 0x202F, 0x205F, 0x3000, 0xFEFF}
     \<or> (0x2000 \<le> c \<and> c \<le> 0x200A)"

definition trim :: "jsstring \<Rightarrow> jsstring" where
  "trim s = rev (dropWhile is_white_space (rev (dropWhile is_white_space s)))"

text \<open>\<^verbatim>\<open>!s\<close> on a string: true exactly for the empty string.\<close>

definition not_string :: "jsstring \<Rightarrow> bool" where
  "not_string s \<longleftrightarrow> s = []"

text \<open>\<^verbatim>\<open>!x\<close> on a value of type \<^verbatim>\<open>string | undefined\<close>.\<close>

definition not_string_or_undefined :: "jsstring option \<Rightarrow> bool" where
  "not_string_or_undefined x = (case x of None \<Rightarrow> True | Some s \<Rightarrow> not_string s)"

text \<open>The string that \<^verbatim>\<open>s += x\<close> appends for \<open>x\<close> of type \<^verbatim>\<open>string | undefined\<close>:
  \<^verbatim>\<open>undefined\<close> is converted to the text of that name.\<close>

definition ToString :: "jsstring option \<Rightarrow> jsstring" where
  "ToString x = (case x of None \<Rightarrow> lit ''undefined'' | Some s \<Rightarrow> s)"

text \<open>Empty or made of white space only.\<close>

definition whitespace_only :: "jsstring \<Rightarrow> bool" where
  "whitespace_only s = list_all is_white_space s"


section \<open>Errors and the external services\<close>

text \<open>A thrown \<^verbatim>\<open>Error\<close>; the handlers read its \<^verbatim>\<open>message\<close> only.\<close>

datatype js_error = Error (message: jsstring)

text \<open>How a block of statements ends: normally, by a throw, or never (an awaited
  promise that does not settle).\<close>

datatype completion = Normal | Throw js_error | Never

text \<open>
  \<^verbatim>\<open>ai.models.generateContentStream\<close>: the promise is rejected, or is never settled,
  or yields a stream. A stream delivers finitely many chunks and then completes,
  throws, or stalls forever. Of a chunk the code reads \<^verbatim>\<open>chunk.text\<close>, which the
  service's library declares as \<^verbatim>\<open>string | undefined\<close>: a chunk without a text part
  has no text.
\<close>

datatype chunk = Chunk (chunk_text: "jsstring option")

datatype stream_end = Completed | Failed js_error | Stalled

datatype response = Unanswered | Rejected js_error | Stream "chunk list" stream_end

fun settles :: "response \<Rightarrow> bool" where
  "settles Unanswered = False"
| "settles (Rejected e) = True"
| "settles (Stream cs Stalled) = False"
| "settles (Stream cs e) = True"

fun failure :: "response \<Rightarrow> js_error option" where
  "failure (Rejected e) = Some e"
| "failure (Stream cs (Failed e)) = Some e"
| "failure r = None"

text \<open>An uploaded file: its name and what reading it gives, the rows of a table
  (each a list of cells) or a read error.\<close>

datatype file_body = Unreadable js_error | Table "jsstring list list"

record uploaded_file =
  name :: jsstring
  body :: file_body

text \<open>The configuration passed to \<^verbatim>\<open>Papa.parse\<close> and the results passed to its
  \<^verbatim>\<open>complete\<close> callback: \<^verbatim>\<open>results.data\<close> (with \<^verbatim>\<open>header: true\<close>, one object per
  data row, its keys in order) and \<^verbatim>\<open>results.meta.fields\<close> (optional).\<close>

record parse_config =
  header :: bool
  preview :: nat

type_synonym row = "(jsstring \<times> jsstring) list"

record parse_results =
  data :: "row list"
  meta_fields :: "jsstring list option"


section \<open>The page\<close>

text \<open>The elements the script looks up by id, the document body, and any other
  element of the page.\<close>

datatype elem =
    document_body
  | tabCompliance | tabClassifier | contentCompliance | contentClassifier
  | schemaInputCompliance | queryInput | checkComplianceBtn | complianceResult
  | fileUpload | schemaInputClassifier | sampleInput | classifyDataBtn | classifierResult
  | other_element nat

record node =
  classList :: "jsstring list"
  attributes :: "jsstring \<rightharpoonup> jsstring"
  innerHTML :: jsstring
  input_value :: jsstring
  disabled :: bool

text \<open>An element's \<^verbatim>\<open>innerHTML\<close> is the string last assigned to it (the browser's
  parsing and re-serialisation of the markup is not modelled).\<close>

text \<open>What the script does to the world outside its own variables: writes of the
  properties \<^verbatim>\<open>disabled\<close>, \<^verbatim>\<open>innerHTML\<close> and \<^verbatim>\<open>value\<close>, and calls of the console, the
  model service and the parsing library. The journal lists them in order. Changes of
  classes and attributes are not listed.\<close>

datatype effect =
    Set_disabled elem bool
  | Set_innerHTML elem jsstring
  | Set_value elem jsstring
  | Console_error js_error
  | GenerateContentStream jsstring jsstring
  | Papa_parse_call uploaded_file parse_config

datatype handler =
    Switch_to_compliance | Switch_to_classifier
  | Check_compliance | File_change | Classify_data

record world =
  dom :: "elem \<Rightarrow> node"
  journal :: "effect list"
  listeners :: "(elem \<times> jsstring \<times> handler) list"

definition set_disabled :: "elem \<Rightarrow> bool \<Rightarrow> world \<Rightarrow> world" where
  "set_disabled e b w =
     w\<lparr>dom := (dom w)(e := (dom w e)\<lparr>disabled := b\<rparr>),
       journal := journal w @ [Set_disabled e b]\<rparr>"

definition set_innerHTML :: "elem \<Rightarrow> jsstring \<Rightarrow> world \<Rightarrow> world" where
  "set_innerHTML e s w =
     w\<lparr>dom := (dom w)(e := (dom w e)\<lparr>innerHTML := s\<rparr>),
       journal := journal w @ [Set_innerHTML e s]\<rparr>"

definition set_value :: "elem \<Rightarrow> jsstring \<Rightarrow> world \<Rightarrow> world" where
  "set_value e s w =
     w\<lparr>dom := (dom w)(e := (dom w e)\<lparr>input_value := s\<rparr>),
       journal := journal w @ [Set_value e s]\<rparr>"

definition call :: "effect \<Rightarrow> world \<Rightarrow> world" where
  "call x w = w\<lparr>journal := journal w @ [x]\<rparr>"

text \<open>The requests sent to the model service, as (model, contents).\<close>

fun requests :: "effect list \<Rightarrow> (jsstring \<times> jsstring) list" where
  "requests [] = []"
| "requests (GenerateContentStream m p # xs) = (m, p) # requests xs"
| "requests (x # xs) = requests xs"


section \<open>Tab navigation\<close>

text \<open>\<^verbatim>\<open>classList.add\<close>, \<^verbatim>\<open>classList.remove\<close>, \<^verbatim>\<open>setAttribute\<close> on one element.\<close>

definition classList_add :: "jsstring \<Rightarrow> node \<Rightarrow> node" where
  "classList_add c n =
     (if c \<in> set (classList n) then n else n\<lparr>classList := classList n @ [c]\<rparr>)"

definition classList_remove :: "jsstring \<Rightarrow> node \<Rightarrow> node" where
  "classList_remove c n = n\<lparr>classList := removeAll c (classList n)\<rparr>"

definition setAttribute :: "jsstring \<Rightarrow> jsstring \<Rightarrow> node \<Rightarrow> node" where
  "setAttribute k v n = n\<lparr>attributes := (attributes n)(k \<mapsto> v)\<rparr>"

text \<open>\<^verbatim>\<open>document.querySelectorAll('.c').forEach(f)\<close>: every element that carries the
  class is updated by \<open>f\<close>; \<open>f\<close> touches only the element it is given.\<close>

definition querySelectorAll_forEach ::
  "jsstring \<Rightarrow> (node \<Rightarrow> node) \<Rightarrow> (elem \<Rightarrow> node) \<Rightarrow> (elem \<Rightarrow> node)" where
  "querySelectorAll_forEach c f d = (\<lambda>e. if c \<in> set (classList (d e)) then f (d e) else d e)"

definition switchTab :: "elem \<Rightarrow> elem \<Rightarrow> world \<Rightarrow> world" where
  "switchTab activeTab activeContent w =
     (let d1 = querySelectorAll_forEach (lit ''tab-button'')
                 (\<lambda>btn. setAttribute (lit ''aria-selected'') (lit ''false'')
                          (classList_remove (lit ''active'') btn)) (dom w);
          d2 = querySelectorAll_forEach (lit ''tab-content'')
                 (\<lambda>content. classList_remove (lit ''active'') content) d1;
          d3 = d2(activeTab := classList_add (lit ''active'') (d2 activeTab));
          d4 = d3(activeTab := setAttribute (lit ''aria-selected'') (lit ''true'') (d3 activeTab));
          d5 = d4(activeContent := classList_add (lit ''active'') (d4 activeContent))
      in w\<lparr>dom := d5\<rparr>)"

text \<open>The two listeners of lines 52 and 53.\<close>

definition tabCompliance_click :: "world \<Rightarrow> world" where
  "tabCompliance_click w = switchTab tabCompliance contentCompliance w"

definition tabClassifier_click :: "world \<Rightarrow> world" where
  "tabClassifier_click w = switchTab tabClassifier contentClassifier w"


text \<open>The two modes of the page, each with its tab button and its content panel; a
  click on a tab button runs the listener above.\<close>

datatype ui_mode = Compliance | Classifier

fun tab_of :: "ui_mode \<Rightarrow> elem" where
  "tab_of Compliance = tabCompliance"
| "tab_of Classifier = tabClassifier"

fun content_of :: "ui_mode \<Rightarrow> elem" where
  "content_of Compliance = contentCompliance"
| "content_of Classifier = contentClassifier"

fun click_tab :: "ui_mode \<Rightarrow> world \<Rightarrow> world" where
  "click_tab Compliance w = tabCompliance_click w"
| "click_tab Classifier w = tabClassifier_click w"

text \<open>An element carries a class; a tab button is marked (class \<^verbatim>\<open>active\<close> and
  \<^verbatim>\<open>aria-selected="true"\<close>) or unmarked.\<close>

definition has_class :: "jsstring \<Rightarrow> node \<Rightarrow> bool" where
  "has_class c n \<longleftrightarrow> c \<in> set (classList n)"

definition tab_selected :: "node \<Rightarrow> bool" where
  "tab_selected n \<longleftrightarrow>
     has_class (lit ''active'') n \<and> attributes n (lit ''aria-selected'') = Some (lit ''true'')"

definition tab_unselected :: "node \<Rightarrow> bool" where
  "tab_unselected n \<longleftrightarrow>
     \<not> has_class (lit ''active'') n \<and> attributes n (lit ''aria-selected'') = Some (lit ''false'')"

text \<open>What the page's markup, which is not part of the sources, has to provide: the
  two tab buttons carry the class \<^verbatim>\<open>tab-button\<close>, the two panels the class
  \<^verbatim>\<open>tab-content\<close>, and neither carries the other's class.\<close>

definition page_markup :: "(elem \<Rightarrow> node) \<Rightarrow> bool" where
  "page_markup d \<longleftrightarrow>
     has_class (lit ''tab-button'') (d tabCompliance)
     \<and> has_class (lit ''tab-button'') (d tabClassifier)
     \<and> has_class (lit ''tab-content'') (d contentCompliance)
     \<and> has_class (lit ''tab-content'') (d contentClassifier)
     \<and> \<not> has_class (lit ''tab-content'') (d tabCompliance)
     \<and> \<not> has_class (lit ''tab-content'') (d tabClassifier)
     \<and> \<not> has_class (lit ''tab-button'') (d contentCompliance)
     \<and> \<not> has_class (lit ''tab-button'') (d contentClassifier)"


section \<open>Streaming a response\<close>

definition model :: jsstring where
  "model = lit ''gemini-2.5-pro''"

text \<open>How an asynchronous call ends: its promise settles with some world, or it stays
  pending and the world stays as the call left it. A call is followed from its first
  statement to its end; other listeners that the browser may run while the call awaits
  are not interleaved.\<close>

datatype outcome = Settled world | Pending world

fun world_of :: "outcome \<Rightarrow> world" where
  "world_of (Settled w) = w"
| "world_of (Pending w) = w"

text \<open>The \<^verbatim>\<open>for await\<close> loop, with the accumulator \<^verbatim>\<open>fullResponse\<close>. Line 77 appends
  \<^verbatim>\<open>chunk.text\<close> as it is, without a guard.\<close>

fun for_await ::
  "(jsstring \<Rightarrow> jsstring) \<Rightarrow> elem \<Rightarrow> chunk list \<Rightarrow> stream_end \<Rightarrow> jsstring \<Rightarrow> world
     \<Rightarrow> world \<times> completion" where
  "for_await marked_parse resultElement [] Completed fullResponse w = (w, Normal)"
| "for_await marked_parse resultElement [] (Failed e) fullResponse w = (w, Throw e)"
| "for_await marked_parse resultElement [] Stalled fullResponse w = (w, Never)"
| "for_await marked_parse resultElement (c # cs) e fullResponse w =
     for_await marked_parse resultElement cs e (fullResponse @ ToString (chunk_text c))
       (set_innerHTML resultElement (marked_parse (fullResponse @ ToString (chunk_text c))) w)"

text \<open>The \<^verbatim>\<open>try\<close> block.\<close>

definition try_block ::
  "(jsstring \<Rightarrow> jsstring \<Rightarrow> response) \<Rightarrow> (jsstring \<Rightarrow> jsstring) \<Rightarrow> jsstring \<Rightarrow> elem \<Rightarrow> world
     \<Rightarrow> world \<times> completion" where
  "try_block generateContentStream marked_parse prompt resultElement w =
     (let w1 = call (GenerateContentStream model prompt) w in
      case generateContentStream model prompt of
        Unanswered \<Rightarrow> (w1, Never)
      | Rejected e \<Rightarrow> (w1, Throw e)
      | Stream cs e \<Rightarrow>
          for_await marked_parse resultElement cs e [] (set_innerHTML resultElement [] w1))"

definition streamResponse ::
  "(jsstring \<Rightarrow> jsstring \<Rightarrow> response) \<Rightarrow> (jsstring \<Rightarrow> jsstring) \<Rightarrow> jsstring \<Rightarrow> elem \<Rightarrow> elem
     \<Rightarrow> world \<Rightarrow> outcome" where
  "streamResponse generateContentStream marked_parse prompt resultElement buttonElement w =
     (let w1 = set_disabled buttonElement True w;
          w2 = set_innerHTML resultElement (lit ''<div class=\"loading\"></div>'') w1
      in case try_block generateContentStream marked_parse prompt resultElement w2 of
           (w3, Never) \<Rightarrow> Pending w3
         | (w3, Normal) \<Rightarrow> Settled (set_disabled buttonElement False w3)
         | (w3, Throw error) \<Rightarrow>
             Settled (set_disabled buttonElement False
               (set_innerHTML resultElement
                  (lit ''<div class=\"error\">An error occurred: '' @ message error @ lit ''</div>'')
                  (call (Console_error error) w3))))"


section \<open>The prompts\<close>

text \<open>The two template literals, each cut at its two interpolations. The text is
  that of lines 98 to 131 and 178 to 204, with the escaped backticks as backticks.\<close>

definition compliance_head :: jsstring where
  "compliance_head = lit
      (''\<newline>'' @
       ''    You are a Data Governance Expert.\<newline>'' @
       ''    Your task is to analyze a user's query against a given data schema, determine its compliance, and if it is compliant, show a sample of the query's result with all PII redacted.\<newline>'' @
       ''\<newline>'' @
       ''    **Data Schema:**\<newline>'' @
       ''    ```json\<newline>'' @
       ''    '')"

definition compliance_middle :: jsstring where
  "compliance_middle = lit
      (''\<newline>'' @
       ''    ```\<newline>'' @
       ''\<newline>'' @
       ''    **User Query:**\<newline>'' @
       ''    ```sql\<newline>'' @
       ''    '')"

definition compliance_tail :: jsstring where
  "compliance_tail = lit
      (''\<newline>'' @
       ''    ```\<newline>'' @
       ''\<newline>'' @
       ''    Please provide the following analysis in well-structured Markdown format:\<newline>'' @
       ''\<newline>'' @
       ''    ---\<newline>'' @
       ''\<newline>'' @
       ''    ### Compliance Analysis\<newline>'' @
       ''\<newline>'' @
       ''    **Compliance Status:** (State \"Compliant\" or \"Non-Compliant\")\<newline>'' @
       ''\<newline>'' @
       ''    **Reasoning:** (If Non-Compliant, explain the violation. If Compliant, briefly state why.)\<newline>'' @
       ''\<newline>'' @
       ''    **Suggested Compliant Query:** (If Non-Compliant, provide a safe alternative. If Compliant, state that no changes are needed.)\<newline>'' @
       ''\<newline>'' @
       ''    ---\<newline>'' @
       ''\<newline>'' @
       ''    ### Sample Redacted Results\<newline>'' @
       ''\<newline>'' @
       ''    -   If the query is **Compliant**, generate a small, realistic, sample markdown table representing the query's output (3-4 rows).\<newline>'' @
       ''    -   In this table, for any column identified as PII from the schema, replace its data with the placeholder `[REDACTED]`.\<newline>'' @
       ''    -   If the query is **Non-Compliant**, simply state: \"Redacted results are not generated for non-compliant queries.\"\<newline>'' @
       ''  '')"

definition compliance_prompt :: "jsstring \<Rightarrow> jsstring \<Rightarrow> jsstring" where
  "compliance_prompt schema query =
     compliance_head @ schema @ compliance_middle @ query @ compliance_tail"

definition classification_head :: jsstring where
  "classification_head = lit
      (''\<newline>'' @
       ''    You are a Data Classification Specialist.\<newline>'' @
       ''    Your task is to analyze a data schema and a corresponding data sample to classify each field's sensitivity level. The data may be in JSON or CSV format.\<newline>'' @
       ''\<newline>'' @
       ''    **Data Schema:**\<newline>'' @
       ''    ```\<newline>'' @
       ''    '')"

definition classification_middle :: jsstring where
  "classification_middle = lit
      (''\<newline>'' @
       ''    ```\<newline>'' @
       ''\<newline>'' @
       ''    **Data Sample:**\<newline>'' @
       ''    ```\<newline>'' @
       ''    '')"

definition classification_tail :: jsstring where
  "classification_tail = lit
      (''\<newline>'' @
       ''    ```\<newline>'' @
       ''\<newline>'' @
       ''    Please perform the following:\<newline>'' @
       ''    1.  Carefully examine each field provided in the schema.\<newline>'' @
       ''    2.  Use the data sample to understand the context and typical values for each field.\<newline>'' @
       ''    3.  Classify each field into one of the following categories:\<newline>'' @
       ''        -   **PII (Personally Identifiable Information):** Data that can be used to identify a specific individual (e.g., name, email, address, phone number, IP address).\<newline>'' @
       ''        -   **Sensitive:** Data that is confidential but not directly identifying (e.g., financial data, internal metrics, transaction amounts).\<newline>'' @
       ''        -   **Public:** Non-sensitive data that can be shared openly (e.g., product IDs, transaction dates, public identifiers).\<newline>'' @
       ''\<newline>'' @
       ''    Present your findings in a clear Markdown table with the following columns:\<newline>'' @
       ''    -   **Field Name**\<newline>'' @
       ''    -   **Classification**\<newline>'' @
       ''    -   **Reasoning** (Provide a brief justification for your classification).\<newline>'' @
       ''  '')"

definition classification_prompt :: "jsstring \<Rightarrow> jsstring \<Rightarrow> jsstring" where
  "classification_prompt schema sample =
     classification_head @ schema @ classification_middle @ sample @ classification_tail"


section \<open>The click handlers\<close>

definition checkComplianceBtn_click ::
  "(jsstring \<Rightarrow> jsstring \<Rightarrow> response) \<Rightarrow> (jsstring \<Rightarrow> jsstring) \<Rightarrow> world \<Rightarrow> outcome" where
  "checkComplianceBtn_click generateContentStream marked_parse w =
     (let schema = input_value (dom w schemaInputCompliance);
          query = input_value (dom w queryInput)
      in if not_string (trim schema) \<or> not_string (trim query)
         then Settled (set_innerHTML complianceResult
                (lit ''<div class=\"error\">Schema and Query cannot be empty.</div>'') w)
         else streamResponse generateContentStream marked_parse
                (compliance_prompt schema query) complianceResult checkComplianceBtn w)"

definition classifyDataBtn_click ::
  "(jsstring \<Rightarrow> jsstring \<Rightarrow> response) \<Rightarrow> (jsstring \<Rightarrow> jsstring) \<Rightarrow> world \<Rightarrow> outcome" where
  "classifyDataBtn_click generateContentStream marked_parse w =
     (let schema = input_value (dom w schemaInputClassifier);
          sample = input_value (dom w sampleInput)
      in if not_string (trim schema) \<or> not_string (trim sample)
         then Settled (set_innerHTML classifierResult
                (lit ''<div class=\"error\">Schema and Data Sample cannot be empty.</div>'') w)
         else streamResponse generateContentStream marked_parse
                (classification_prompt schema sample) classifierResult classifyDataBtn w)"


section \<open>JSON.stringify\<close>

text \<open>The values the upload handler serialises: strings, arrays, objects (their
  properties in order) and \<^verbatim>\<open>undefined\<close>.\<close>

datatype js_value =
    Undefined
  | Str jsstring
  | Arr "js_value list"
  | Obj "(jsstring \<times> js_value) list"

definition hex_digit :: "nat \<Rightarrow> 16 word" where
  "hex_digit n = (if n < 10 then 0x30 + of_nat n else 0x61 + of_nat (n - 10))"

text \<open>\<^verbatim>\<open>\uXXXX\<close>, in lower-case hexadecimal.\<close>

definition unicode_escape :: "16 word \<Rightarrow> jsstring" where
  "unicode_escape c =
     [0x5C, 0x75, hex_digit (unat c div 4096), hex_digit (unat c div 256 mod 16),
      hex_digit (unat c div 16 mod 16), hex_digit (unat c mod 16)]"

definition is_high_surrogate :: "16 word \<Rightarrow> bool" where
  "is_high_surrogate c \<longleftrightarrow> 0xD800 \<le> c \<and> c \<le> 0xDBFF"

definition is_low_surrogate :: "16 word \<Rightarrow> bool" where
  "is_low_surrogate c \<longleftrightarrow> 0xDC00 \<le> c \<and> c \<le> 0xDFFF"

definition json_escape :: "16 word \<Rightarrow> jsstring" where
  "json_escape c =
     (if c = 0x08 then [0x5C, 0x62]
      else if c = 0x09 then [0x5C, 0x74]
      else if c = 0x0A then [0x5C, 0x6E]
      else if c = 0x0C then [0x5C, 0x66]
      else if c = 0x0D then [0x5C, 0x72]
      else if c = 0x22 then [0x5C, 0x22]
      else if c = 0x5C then [0x5C, 0x5C]
      else if c < 0x20 \<or> is_high_surrogate c \<or> is_low_surrogate c then unicode_escape c
      else [c])"

text \<open>A surrogate pair is one code point and is copied; a lone surrogate is escaped.\<close>

fun quote_code_units :: "jsstring \<Rightarrow> jsstring" where
  "quote_code_units [] = []"
| "quote_code_units [c] = json_escape c"
| "quote_code_units (c # d # cs) =
     (if is_high_surrogate c \<and> is_low_surrogate d then c # d # quote_code_units cs
      else json_escape c @ quote_code_units (d # cs))"

definition QuoteJSONString :: "jsstring \<Rightarrow> jsstring" where
  "QuoteJSONString s = [0x22] @ quote_code_units s @ [0x22]"

text \<open>\<^verbatim>\<open>Array.prototype.join\<close> on strings.\<close>

fun join :: "jsstring \<Rightarrow> jsstring list \<Rightarrow> jsstring" where
  "join sep [] = []"
| "join sep [x] = x"
| "join sep (x # y # ys) = x @ sep @ join sep (y # ys)"

text \<open>
  Serialisation with the gap of two spaces (\<^verbatim>\<open>JSON.stringify(v, null, 2)\<close>), at
  nesting depth \<open>n\<close>. \<open>None\<close> is \<^verbatim>\<open>undefined\<close>: such a property is left out of an
  object, and such an element of an array is written \<^verbatim>\<open>null\<close>.
\<close>

fun SerializeJSONProperty :: "nat \<Rightarrow> js_value \<Rightarrow> jsstring option" where
  "SerializeJSONProperty n Undefined = None"
| "SerializeJSONProperty n (Str s) = Some (QuoteJSONString s)"
| "SerializeJSONProperty n (Arr vs) =
     (let stepback = replicate (2 * n) 0x20;
          indent = replicate (2 * Suc n) 0x20;
          partial = map (\<lambda>v. case SerializeJSONProperty (Suc n) v of
                                 None \<Rightarrow> lit ''null'' | Some s \<Rightarrow> s) vs
      in if partial = [] then Some (lit ''[]'')
         else Some (lit ''['' @ [0x0A] @ indent @ join (lit '','' @ [0x0A] @ indent) partial
                    @ [0x0A] @ stepback @ lit '']''))"
| "SerializeJSONProperty n (Obj ps) =
     (let stepback = replicate (2 * n) 0x20;
          indent = replicate (2 * Suc n) 0x20;
          partial = concat (map (\<lambda>(k, v). case SerializeJSONProperty (Suc n) v of
                                 None \<Rightarrow> [] | Some s \<Rightarrow> [QuoteJSONString k @ lit '': '' @ s]) ps)
      in if partial = [] then Some (lit ''{}'')
         else Some (lit ''{'' @ [0x0A] @ indent @ join (lit '','' @ [0x0A] @ indent) partial
                    @ [0x0A] @ stepback @ lit ''}''))"

text \<open>At top level \<^verbatim>\<open>JSON.stringify\<close> gives \<^verbatim>\<open>undefined\<close> for \<^verbatim>\<open>undefined\<close>, which an
  assignment to \<^verbatim>\<open>value\<close> turns into the text of that name.\<close>

definition JSON_stringify_2 :: "js_value \<Rightarrow> jsstring" where
  "JSON_stringify_2 v =
     (case SerializeJSONProperty 0 v of None \<Rightarrow> lit ''undefined'' | Some s \<Rightarrow> s)"


section \<open>The file upload handler\<close>

text \<open>The object literal of lines 152 to 155; \<^verbatim>\<open>fields\<close> is \<^verbatim>\<open>undefined\<close> when
  \<^verbatim>\<open>results.meta.fields\<close> is.\<close>

definition schema_object :: "uploaded_file \<Rightarrow> parse_results \<Rightarrow> js_value" where
  "schema_object file results =
     Obj [(lit ''name'', Str (name file)),
          (lit ''fields'',
             (case meta_fields results of
                None \<Rightarrow> Undefined
              | Some fs \<Rightarrow> Arr (map (\<lambda>f. Obj [(lit ''name'', Str f),
                                               (lit ''type'', Str (lit ''unknown''))]) fs)))]"

text \<open>The \<^verbatim>\<open>complete\<close> and \<^verbatim>\<open>error\<close> callbacks. (\<^verbatim>\<open>headers\<close>, line 150, is computed and
  not used.)\<close>

definition complete ::
  "(row list \<Rightarrow> jsstring) \<Rightarrow> uploaded_file \<Rightarrow> parse_results \<Rightarrow> world \<Rightarrow> world" where
  "complete unparse file results w =
     (let schemaForPrompt = JSON_stringify_2 (schema_object file results);
          sampleData = unparse (data results)
      in set_value sampleInput sampleData (set_value schemaInputClassifier schemaForPrompt w))"

definition on_error :: "js_error \<Rightarrow> world \<Rightarrow> world" where
  "on_error error w =
     set_innerHTML classifierResult
       (lit ''<div class=\"error\">Error parsing file: '' @ message error @ lit ''</div>'') w"

text \<open>The listener of the file input. \<open>files\<close> is \<^verbatim>\<open>event.target.files\<close>, which may be
  \<^verbatim>\<open>null\<close>. \<open>parse\<close> and \<open>unparse\<close> are the parsing library; \<open>parse\<close> answers by
  one of the two callbacks.\<close>

definition fileUpload_change ::
  "(uploaded_file \<Rightarrow> parse_config \<Rightarrow> js_error + parse_results) \<Rightarrow> (row list \<Rightarrow> jsstring)
     \<Rightarrow> uploaded_file list option \<Rightarrow> world \<Rightarrow> world" where
  "fileUpload_change parse unparse files w =
     (case files of
        None \<Rightarrow> w
      | Some [] \<Rightarrow> w
      | Some (file # _) \<Rightarrow>
          (let config = \<lparr>header = True, preview = 5\<rparr>;
               w1 = call (Papa_parse_call file config) w
           in case parse file config of
                Inr results \<Rightarrow> complete unparse file results w1
              | Inl error \<Rightarrow> on_error error w1))"


section \<open>The parsing library\<close>

text \<open>
  \<^verbatim>\<open>Papa.parse\<close> and \<^verbatim>\<open>Papa.unparse\<close> are the third-party parsing library, which is
  not part of the sources. The handler above takes them as parameters; the two
  functions below are what the spec says of them.
\<close>

text \<open>Modelled from the spec: \<^verbatim>\<open>Papa.parse\<close>, which is not in the sources. The spec:
  ``parse file with header row and row limit, returning parsed row mapping and the
  list of column names, or an error with a human-readable description'', and ``parses
  at most 5 data rows using header-row detection''. The first row of the table is the
  header; at most \<open>preview\<close> of the rows after it are data rows, each mapped from the
  column names to its cells. A file that cannot be read gives the error.\<close>

definition Papa_parse :: "uploaded_file \<Rightarrow> parse_config \<Rightarrow> js_error + parse_results" where
  "Papa_parse file config =
     (case body file of
        Unreadable e \<Rightarrow> Inl e
      | Table [] \<Rightarrow> Inr \<lparr>data = [], meta_fields = Some []\<rparr>
      | Table (columns # rows) \<Rightarrow>
          Inr \<lparr>data = map (zip columns) (take (preview config) rows),
               meta_fields = Some columns\<rparr>)"

text \<open>Modelled from the spec: the records of \<^verbatim>\<open>Papa.unparse\<close>, which is not in the
  sources. The spec: ``a re-serialized text sample of the parsed rows (header + up to
  5 rows)''. A header record with the column names of the first row, then one record
  per data row; nothing for no rows.\<close>

definition Papa_unparse_records :: "row list \<Rightarrow> jsstring list list" where
  "Papa_unparse_records rows =
     (case rows of [] \<Rightarrow> [] | r # _ \<Rightarrow> map fst r # map (map snd) rows)"

text \<open>Modelled from the spec: \<^verbatim>\<open>Papa.unparse\<close>, which is not in the sources. The spec:
  ``in the same tabular text form as the input''. The cells of a record are joined by
  commas and the records by CR LF, the library's defaults; quoting of cells is left
  out.\<close>

definition Papa_unparse :: "row list \<Rightarrow> jsstring" where
  "Papa_unparse rows =
     join [0x0D, 0x0A] (map (join (lit '','')) (Papa_unparse_records rows))"


section \<open>Start-up and the listeners\<close>

definition addEventListener :: "elem \<Rightarrow> jsstring \<Rightarrow> handler \<Rightarrow> world \<Rightarrow> world" where
  "addEventListener target type h w = w\<lparr>listeners := listeners w @ [(target, type, h)]\<rparr>"

text \<open>The module's top level: the guard of lines 10 to 15, then the five
  registrations (lines 52, 53, 89, 140, 169). \<open>API_KEY\<close> is
  \<^verbatim>\<open>process.env.API_KEY\<close>.\<close>

definition main :: "jsstring option \<Rightarrow> world \<Rightarrow> world \<times> completion" where
  "main API_KEY w =
     (if not_string_or_undefined API_KEY
      then (set_innerHTML document_body (lit ''<div class=\"error\">Missing API Key!</div>'') w,
            Throw (Error (lit ''Missing API Key'')))
      else
        (let w1 = addEventListener tabCompliance (lit ''click'') Switch_to_compliance w;
             w2 = addEventListener tabClassifier (lit ''click'') Switch_to_classifier w1;
             w3 = addEventListener checkComplianceBtn (lit ''click'') Check_compliance w2;
             w4 = addEventListener fileUpload (lit ''change'') File_change w3;
             w5 = addEventListener classifyDataBtn (lit ''click'') Classify_data w4
         in (w5, Normal)))"

text \<open>An event, and the libraries the listeners call.\<close>

record event =
  event_type :: jsstring
  target_files :: "uploaded_file list option"

record libs =
  lib_generateContentStream :: "jsstring \<Rightarrow> jsstring \<Rightarrow> response"
  lib_marked_parse :: "jsstring \<Rightarrow> jsstring"
  lib_parse :: "uploaded_file \<Rightarrow> parse_config \<Rightarrow> js_error + parse_results"
  lib_unparse :: "row list \<Rightarrow> jsstring"

fun run_handler :: "libs \<Rightarrow> handler \<Rightarrow> event \<Rightarrow> world \<Rightarrow> world" where
  "run_handler L Switch_to_compliance ev w = tabCompliance_click w"
| "run_handler L Switch_to_classifier ev w = tabClassifier_click w"
| "run_handler L Check_compliance ev w =
     world_of (checkComplianceBtn_click (lib_generateContentStream L) (lib_marked_parse L) w)"
| "run_handler L File_change ev w =
     fileUpload_change (lib_parse L) (lib_unparse L) (target_files ev) w"
| "run_handler L Classify_data ev w =
     world_of (classifyDataBtn_click (lib_generateContentStream L) (lib_marked_parse L) w)"

text \<open>Dispatching an event to an element runs the listeners registered for the
  element and the event type, in the order of registration.\<close>

definition dispatch :: "libs \<Rightarrow> elem \<Rightarrow> event \<Rightarrow> world \<Rightarrow> world" where
  "dispatch L target ev w =
     fold (\<lambda>(t, ty, h) w'. if t = target \<and> ty = event_type ev then run_handler L h ev w' else w')
       (listeners w) w"

section \<open>An example page\<close>

text \<open>A page whose markup is as the script expects, with the compliance tab shown,
  and inputs and a file for the examples below.\<close>

definition empty_node :: node where
  "empty_node = \<lparr>classList = [], attributes = Map.empty, innerHTML = [], input_value = [],
     disabled = False\<rparr>"

fun example_dom :: "elem \<Rightarrow> node" where
  "example_dom tabCompliance =
     empty_node\<lparr>classList := [lit ''tab-button'', lit ''active''],
                attributes := [lit ''aria-selected'' \<mapsto> lit ''true'']\<rparr>"
| "example_dom tabClassifier =
     empty_node\<lparr>classList := [lit ''tab-button''],
                attributes := [lit ''aria-selected'' \<mapsto> lit ''false'']\<rparr>"
| "example_dom contentCompliance = empty_node\<lparr>classList := [lit ''tab-content'', lit ''active'']\<rparr>"
| "example_dom contentClassifier = empty_node\<lparr>classList := [lit ''tab-content'']\<rparr>"
| "example_dom e = empty_node"

definition example_page :: world where
  "example_page = \<lparr>dom = example_dom, journal = [], listeners = []\<rparr>"

definition example_inputs :: world where
  "example_inputs =
     set_value sampleInput [0x0A]
       (set_value schemaInputClassifier (lit ''{}'')
          (set_value queryInput (lit ''SELECT 1'')
             (set_value schemaInputCompliance (lit ''  '') example_page)))"

definition example_query :: world where
  "example_query =
     set_value queryInput (lit ''SELECT a FROM t'')
       (set_value schemaInputCompliance (lit ''{\"a\": 1}'') example_page)"

definition example_classifier_inputs :: world where
  "example_classifier_inputs =
     set_value sampleInput (lit ''x,y'') (set_value schemaInputClassifier (lit ''{}'') example_page)"

definition example_file :: uploaded_file where
  "example_file =
     \<lparr>name = lit ''t.csv'',
      body = Table [[lit ''a'', lit ''b''],
                    [lit ''1'', lit ''2''], [lit ''3'', lit ''4''], [lit ''5'', lit ''6''],
                    [lit ''7'', lit ''8''], [lit ''9'', lit ''10''], [lit ''11'', lit ''12'']]\<rparr>"

definition example_results :: parse_results where
  "example_results =
     \<lparr>data = [[(lit ''a'', lit ''1''), (lit ''b'', lit ''2'')],
              [(lit ''a'', lit ''3''), (lit ''b'', lit ''4'')],
              [(lit ''a'', lit ''5''), (lit ''b'', lit ''6'')],
              [(lit ''a'', lit ''7''), (lit ''b'', lit ''8'')],
              [(lit ''a'', lit ''9''), (lit ''b'', lit ''10'')]],
      meta_fields = Some [lit ''a'', lit ''b'']\<rparr>"


section \<open>Strings and the journal\<close>

lemma trim_Nil_iff: "trim s = [] \<longleftrightarrow> whitespace_only s"
proof -
  have idem: "dropWhile is_white_space (dropWhile is_white_space s) = dropWhile is_white_space s"
    by (rule dropWhile_idem)
  have "(\<forall>x\<in>set (dropWhile is_white_space s). is_white_space x)
        \<longleftrightarrow> (\<forall>x\<in>set s. is_white_space x)"
    using idem by (metis dropWhile_eq_Nil_conv set_dropWhileD)
  then show ?thesis
    by (simp add: trim_def whitespace_only_def list_all_iff)
qed

lemma dom_set_disabled [simp]:
  "dom (set_disabled e b w) = (dom w)(e := (dom w e)\<lparr>disabled := b\<rparr>)"
  by (simp add: set_disabled_def)

lemma journal_set_disabled [simp]:
  "journal (set_disabled e b w) = journal w @ [Set_disabled e b]"
  by (simp add: set_disabled_def)

lemma listeners_set_disabled [simp]: "listeners (set_disabled e b w) = listeners w"
  by (simp add: set_disabled_def)

lemma dom_set_innerHTML [simp]:
  "dom (set_innerHTML e s w) = (dom w)(e := (dom w e)\<lparr>innerHTML := s\<rparr>)"
  by (simp add: set_innerHTML_def)

lemma journal_set_innerHTML [simp]:
  "journal (set_innerHTML e s w) = journal w @ [Set_innerHTML e s]"
  by (simp add: set_innerHTML_def)

lemma listeners_set_innerHTML [simp]: "listeners (set_innerHTML e s w) = listeners w"
  by (simp add: set_innerHTML_def)

lemma dom_set_value [simp]:
  "dom (set_value e s w) = (dom w)(e := (dom w e)\<lparr>input_value := s\<rparr>)"
  by (simp add: set_value_def)

lemma journal_set_value [simp]:
  "journal (set_value e s w) = journal w @ [Set_value e s]"
  by (simp add: set_value_def)

lemma listeners_set_value [simp]: "listeners (set_value e s w) = listeners w"
  by (simp add: set_value_def)

lemma dom_call [simp]: "dom (call x w) = dom w"
  by (simp add: call_def)

lemma journal_call [simp]: "journal (call x w) = journal w @ [x]"
  by (simp add: call_def)

lemma listeners_call [simp]: "listeners (call x w) = listeners w"
  by (simp add: call_def)

lemma requests_append [simp]: "requests (xs @ ys) = requests xs @ requests ys"
  by (induction xs rule: requests.induct) simp_all

lemma requests_map_Set_innerHTML [simp]: "requests (map (\<lambda>x. Set_innerHTML r (f x)) xs) = []"
  by (induction xs) simp_all


section \<open>The streaming loop\<close>

text \<open>The non-empty prefixes of a list, shortest first, are \<open>tl (prefixes xs)\<close>.\<close>

lemma prefixes_hd_tl: "prefixes xs = [] # tl (prefixes xs)"
  by (cases xs) simp_all

lemma tl_prefixes_Cons: "tl (prefixes (x # xs)) = [x] # map ((#) x) (tl (prefixes xs))"
proof -
  have "tl (prefixes (x # xs)) = map ((#) x) (prefixes xs)" by simp
  also have "\<dots> = map ((#) x) ([] # tl (prefixes xs))" using prefixes_hd_tl [of xs] by simp
  finally show ?thesis by simp
qed

text \<open>The loop ends as the stream does; it writes one render per chunk, each of the
  whole accumulator; it touches nothing but the result element's content.\<close>

lemma for_await_completion:
  "snd (for_await m r cs e full w) =
     (case e of Completed \<Rightarrow> Normal | Failed x \<Rightarrow> Throw x | Stalled \<Rightarrow> Never)"
  by (induction cs arbitrary: full w) (cases e; simp)+

lemma for_await_journal:
  "journal (fst (for_await m r cs e full w)) =
     journal w @ map (\<lambda>p. Set_innerHTML r (m (full @ concat (map (\<lambda>c. ToString (chunk_text c)) p)))) (tl (prefixes cs))"
proof (induction cs arbitrary: full w)
  case Nil
  then show ?case by (cases e) simp_all
next
  case (Cons c cs)
  show ?case
    by (simp only: for_await.simps Cons.IH tl_prefixes_Cons)
       (simp add: comp_def)
qed

lemma for_await_dom:
  "dom (fst (for_await m r cs e full w)) =
     (if cs = [] then dom w
      else (dom w)(r := (dom w r)\<lparr>innerHTML := m (full @ concat (map (\<lambda>c. ToString (chunk_text c)) cs))\<rparr>))"
proof (induction cs arbitrary: full w)
  case Nil
  then show ?case by (cases e) simp_all
next
  case (Cons c cs)
  show ?case by (auto simp add: Cons.IH fun_eq_iff)
qed

lemma for_await_listeners:
  "listeners (fst (for_await m r cs e full w)) = listeners w"
proof (induction cs arbitrary: full w)
  case Nil
  then show ?case by (cases e) simp_all
next
  case (Cons c cs)
  show ?case by (simp add: Cons.IH)
qed

lemma try_block_completion:
  "snd (try_block gen m p r w) =
     (case gen model p of
        Unanswered \<Rightarrow> Never
      | Rejected e \<Rightarrow> Throw e
      | Stream cs Completed \<Rightarrow> Normal
      | Stream cs (Failed e) \<Rightarrow> Throw e
      | Stream cs Stalled \<Rightarrow> Never)"
  by (simp add: try_block_def Let_def for_await_completion
        split: response.split stream_end.split)

lemma try_block_journal:
  "journal (fst (try_block gen m p r w)) =
     journal w @ [GenerateContentStream model p] @
     (case gen model p of
        Stream cs e \<Rightarrow>
          Set_innerHTML r [] #
          map (\<lambda>q. Set_innerHTML r (m (concat (map (\<lambda>c. ToString (chunk_text c)) q)))) (tl (prefixes cs))
      | _ \<Rightarrow> [])"
  by (simp add: try_block_def Let_def for_await_journal split: response.split)

lemma try_block_dom:
  "dom (fst (try_block gen m p r w)) =
     (case gen model p of
        Stream cs e \<Rightarrow>
          (dom w)(r := (dom w r)\<lparr>innerHTML := (if cs = [] then [] else m (concat (map (\<lambda>c. ToString (chunk_text c)) cs)))\<rparr>)
      | _ \<Rightarrow> dom w)"
  by (auto simp add: try_block_def Let_def for_await_dom fun_eq_iff split: response.split)

lemma try_block_listeners: "listeners (fst (try_block gen m p r w)) = listeners w"
  by (simp add: try_block_def Let_def for_await_listeners split: response.split)

lemma streamResponse_cases:
  "streamResponse gen m p r b w =
     (let w3 = fst (try_block gen m p r
                 (set_innerHTML r (lit ''<div class=\"loading\"></div>'') (set_disabled b True w)))
      in case snd (try_block gen m p r
                 (set_innerHTML r (lit ''<div class=\"loading\"></div>'') (set_disabled b True w))) of
           Never \<Rightarrow> Pending w3
         | Normal \<Rightarrow> Settled (set_disabled b False w3)
         | Throw error \<Rightarrow>
             Settled (set_disabled b False
               (set_innerHTML r
                  (lit ''<div class=\"error\">An error occurred: '' @ message error @ lit ''</div>'')
                  (call (Console_error error) w3))))"
  by (auto simp add: streamResponse_def Let_def split: prod.split completion.split)

lemma streamResponse_requests:
  "requests (journal (world_of (streamResponse gen m p r b w))) =
     requests (journal w) @ [(model, p)]"
  by (simp add: streamResponse_cases Let_def try_block_journal try_block_completion
        split: completion.split response.split stream_end.split)

text \<open>
  What a call does on a stream that completes: it settles, the result element holds
  the rendering of all that line 77 appended, in arrival order, and the writes to the
  result element in between are the renderings of the accumulator after each chunk
  (the non-empty prefixes of the stream), never of one chunk alone. When the stream
  delivers no chunk the code writes the empty string itself, which is the rendering
  of the empty text for a renderer that maps the empty text to the empty markup, as
  the markdown library does.
\<close>

lemma streamResponse_completed:
  assumes "generateContentStream model prompt = Stream chunks Completed"
    and "chunks = [] \<longrightarrow> marked_parse [] = []"
  shows "\<exists>w'. streamResponse generateContentStream marked_parse prompt resultElement buttonElement w
               = Settled w'
           \<and> innerHTML (dom w' resultElement) = marked_parse (concat (map (\<lambda>c. ToString (chunk_text c)) chunks))
           \<and> journal w' =
               journal w @
               [Set_disabled buttonElement True,
                Set_innerHTML resultElement (lit ''<div class=\"loading\"></div>''),
                GenerateContentStream model prompt,
                Set_innerHTML resultElement []] @
               map (\<lambda>p. Set_innerHTML resultElement (marked_parse (concat (map (\<lambda>c. ToString (chunk_text c)) p))))
                 (tl (prefixes chunks)) @
               [Set_disabled buttonElement False]"
  using assms
  by (simp add: streamResponse_cases Let_def try_block_completion try_block_journal try_block_dom)

text \<open>The fragments \<^verbatim>\<open>"Hel"\<close>, \<^verbatim>\<open>"lo"\<close> with a renderer that wraps its text in a
  paragraph, and a stream without fragments with a renderer that keeps its text.\<close>

lemma streamResponse_completed_example:
  "(\<exists>w'. streamResponse (\<lambda>m p. Stream [Chunk (Some (lit ''Hel'')), Chunk (Some (lit ''lo''))] Completed)
            (\<lambda>s. lit ''<p>'' @ s @ lit ''</p>'') (lit ''hi'') complianceResult checkComplianceBtn
            example_page = Settled w'
     \<and> innerHTML (dom w' complianceResult) = lit ''<p>Hello</p>''
     \<and> journal w' =
         [Set_disabled checkComplianceBtn True,
          Set_innerHTML complianceResult (lit ''<div class=\"loading\"></div>''),
          GenerateContentStream model (lit ''hi''),
          Set_innerHTML complianceResult [],
          Set_innerHTML complianceResult (lit ''<p>Hel</p>''),
          Set_innerHTML complianceResult (lit ''<p>Hello</p>''),
          Set_disabled checkComplianceBtn False])
   \<and> (\<exists>w'. streamResponse (\<lambda>m p. Stream [] Completed) (\<lambda>s. s) (lit ''hi'')
            complianceResult checkComplianceBtn example_page = Settled w'
     \<and> innerHTML (dom w' complianceResult) = []
     \<and> journal w' =
         [Set_disabled checkComplianceBtn True,
          Set_innerHTML complianceResult (lit ''<div class=\"loading\"></div>''),
          GenerateContentStream model (lit ''hi''),
          Set_innerHTML complianceResult [],
          Set_disabled checkComplianceBtn False])"
  using streamResponse_completed
    [of "\<lambda>m p. Stream [Chunk (Some (lit ''Hel'')), Chunk (Some (lit ''lo''))] Completed" "lit ''hi''"
        "[Chunk (Some (lit ''Hel'')), Chunk (Some (lit ''lo''))]" "\<lambda>s. lit ''<p>'' @ s @ lit ''</p>''"
        complianceResult checkComplianceBtn example_page]
    streamResponse_completed
    [of "\<lambda>m p. Stream [] Completed" "lit ''hi''" "[]" "\<lambda>s. s"
        complianceResult checkComplianceBtn example_page]
  by (simp add: lit_def example_page_def ToString_def)

text \<open>A stream that completes without a fragment leaves the result element empty,
  whatever the renderer.\<close>

lemma streamResponse_empty_stream:
  assumes "generateContentStream model prompt = Stream [] Completed"
  shows "\<exists>w'. streamResponse generateContentStream marked_parse prompt resultElement buttonElement w
               = Settled w'
           \<and> innerHTML (dom w' resultElement) = []"
  using assms
  by (simp add: streamResponse_cases Let_def try_block_completion try_block_dom)

text \<open>On a stream whose chunks all carry text, the result element ends with the
  rendering of the concatenation of the texts.\<close>

lemma streamResponse_renders_texts:
  assumes "generateContentStream model prompt = Stream (map (\<lambda>t. Chunk (Some t)) texts) Completed"
    and "texts = [] \<longrightarrow> marked_parse [] = []"
  shows "\<exists>w'. streamResponse generateContentStream marked_parse prompt resultElement buttonElement w
               = Settled w'
           \<and> innerHTML (dom w' resultElement) = marked_parse (concat texts)"
proof -
  have "concat (map (\<lambda>c. ToString (chunk_text c)) (map (\<lambda>t. Chunk (Some t)) texts)) = concat texts"
    by (simp add: comp_def ToString_def)
  then show ?thesis
    using assms
    by (simp add: streamResponse_cases Let_def try_block_completion try_block_dom)
qed

text \<open>
  Claim C1. For every finite fragment sequence that the stream delivers before it
  completes normally, \<open>streamResponse\<close> is to leave in the result element the
  rendering of the concatenation of all fragments in arrival order, every render in
  between being of the whole accumulator. The code does not do so when a chunk has no
  text: line 77 appends \<^verbatim>\<open>chunk.text\<close> without a guard, and \<^verbatim>\<open>undefined\<close> is appended as
  the text of that name. On the fragments \<^verbatim>\<open>"Hel"\<close>, \<^verbatim>\<open>"lo"\<close> followed by a chunk without
  text, with a renderer that wraps its text in a paragraph, the result element ends
  with the rendering of \<^verbatim>\<open>"Helloundefined"\<close>, not that of \<^verbatim>\<open>"Hello"\<close>.
\<close>

theorem streamResponse_textless_chunk_renders_undefined:
  "\<exists>w'. streamResponse
            (\<lambda>m p. Stream [Chunk (Some (lit ''Hel'')), Chunk (Some (lit ''lo'')), Chunk None] Completed)
            (\<lambda>s. lit ''<p>'' @ s @ lit ''</p>'') (lit ''hi'') complianceResult checkComplianceBtn
            example_page = Settled w'
     \<and> innerHTML (dom w' complianceResult) = lit ''<p>Helloundefined</p>''
     \<and> innerHTML (dom w' complianceResult) \<noteq> lit ''<p>Hello</p>''
     \<and> journal w' =
         [Set_disabled checkComplianceBtn True,
          Set_innerHTML complianceResult (lit ''<div class=\"loading\"></div>''),
          GenerateContentStream model (lit ''hi''),
          Set_innerHTML complianceResult [],
          Set_innerHTML complianceResult (lit ''<p>Hel</p>''),
          Set_innerHTML complianceResult (lit ''<p>Hello</p>''),
          Set_innerHTML complianceResult (lit ''<p>Helloundefined</p>''),
          Set_disabled checkComplianceBtn False]"
  by (simp add: streamResponse_cases Let_def try_block_completion try_block_journal try_block_dom
        lit_def example_page_def ToString_def)

text \<open>
  Claim C2. Every call of \<open>streamResponse\<close> that ends, whether the stream completes or
  the request or the stream throws, ends with the trigger control enabled, and the
  write that enables it is the last effect of the call.
\<close>

theorem streamResponse_reenables_button:
  assumes "settles (generateContentStream model prompt)"
  shows "\<exists>w'. streamResponse generateContentStream marked_parse prompt resultElement buttonElement w
               = Settled w'
           \<and> \<not> disabled (dom w' buttonElement)
           \<and> last (journal w') = Set_disabled buttonElement False"
proof (cases "generateContentStream model prompt")
  case Unanswered
  with assms show ?thesis by simp
next
  case (Rejected e)
  then show ?thesis
    by (simp add: streamResponse_cases Let_def try_block_completion)
next
  case (Stream cs e)
  with assms show ?thesis
    by (cases e) (simp_all add: streamResponse_cases Let_def try_block_completion)
qed

text \<open>A request that is rejected before any fragment arrives.\<close>

theorem streamResponse_reenables_button_witness:
  "settles (Rejected (Error (lit ''boom'')))
   \<and> (\<exists>w'. streamResponse (\<lambda>m p. Rejected (Error (lit ''boom''))) (\<lambda>s. s) (lit ''hi'')
            complianceResult checkComplianceBtn example_page = Settled w'
        \<and> \<not> disabled (dom w' checkComplianceBtn)
        \<and> last (journal w') = Set_disabled checkComplianceBtn False)"
  using streamResponse_reenables_button
    [of "\<lambda>m p. Rejected (Error (lit ''boom''))" "lit ''hi''" "\<lambda>s. s"
        complianceResult checkComplianceBtn example_page]
  by simp

text \<open>A call whose request or stream never settles stays pending, with the control
  disabled.\<close>

lemma streamResponse_pending:
  assumes "\<not> settles (generateContentStream model prompt)"
  shows "\<exists>w'. streamResponse generateContentStream marked_parse prompt resultElement buttonElement w
               = Pending w'
           \<and> disabled (dom w' buttonElement)"
proof (cases "generateContentStream model prompt")
  case Unanswered
  then show ?thesis
    by (simp add: streamResponse_cases Let_def try_block_completion try_block_dom)
next
  case (Rejected e)
  with assms show ?thesis by simp
next
  case (Stream cs e)
  with assms show ?thesis
    by (cases e) (simp_all add: streamResponse_cases Let_def try_block_completion try_block_dom)
qed

text \<open>
  Claim C4. For every failure raised in the \<^verbatim>\<open>try\<close> block (the request is rejected, or
  the stream throws after any number of fragments, zero included) the call settles
  with the result element holding the error message built around the failure's
  description, and exactly one request has been sent: there is no retry.
\<close>

theorem streamResponse_reports_failure:
  assumes "failure (generateContentStream model prompt) = Some error"
  shows "\<exists>w'. streamResponse generateContentStream marked_parse prompt resultElement buttonElement w
               = Settled w'
           \<and> innerHTML (dom w' resultElement) =
               lit ''<div class=\"error\">An error occurred: '' @ message error @ lit ''</div>''
           \<and> sublist (message error) (innerHTML (dom w' resultElement))
           \<and> requests (journal w') = requests (journal w) @ [(model, prompt)]"
proof -
  have sub: "sublist (message error)
      (lit ''<div class=\"error\">An error occurred: '' @ message error @ lit ''</div>'')"
    by (rule sublist_appendI)
  have c: "snd (try_block generateContentStream marked_parse prompt resultElement
              (set_innerHTML resultElement (lit ''<div class=\"loading\"></div>'')
                 (set_disabled buttonElement True w))) = Throw error"
    using assms
    by (cases "generateContentStream model prompt" rule: failure.cases)
       (simp_all add: try_block_completion)
  show ?thesis
    using sub streamResponse_requests [of generateContentStream marked_parse prompt resultElement buttonElement w]
    by (simp add: streamResponse_cases Let_def c)
qed

text \<open>A stream that fails after one fragment.\<close>

theorem streamResponse_reports_failure_witness:
  "failure (Stream [Chunk (Some (lit ''Hel''))] (Failed (Error (lit ''network down''))))
     = Some (Error (lit ''network down''))
   \<and> (\<exists>w'. streamResponse (\<lambda>m p. Stream [Chunk (Some (lit ''Hel''))] (Failed (Error (lit ''network down''))))
            (\<lambda>s. s) (lit ''hi'') complianceResult checkComplianceBtn example_page = Settled w'
        \<and> innerHTML (dom w' complianceResult) =
            lit ''<div class=\"error\">An error occurred: network down</div>''
        \<and> sublist (lit ''network down'') (innerHTML (dom w' complianceResult))
        \<and> requests (journal w') = [(model, lit ''hi'')])"
  using streamResponse_reports_failure
    [of "\<lambda>m p. Stream [Chunk (Some (lit ''Hel''))] (Failed (Error (lit ''network down'')))" "lit ''hi''"
        "Error (lit ''network down'')" "\<lambda>s. s" complianceResult checkComplianceBtn example_page]
  by (simp add: lit_def example_page_def)


section \<open>The click handlers\<close>

text \<open>
  Claim C3. When the schema or the query (compliance), or the schema or the sample
  (classifier), is empty or made of white space only, the click handler writes the
  validation message to its result element and returns: that write is its only
  effect, and no request is sent.
\<close>

theorem blank_input_is_rejected_without_request:
  "(whitespace_only (input_value (dom w schemaInputCompliance))
      \<or> whitespace_only (input_value (dom w queryInput)) \<longrightarrow>
      checkComplianceBtn_click generateContentStream marked_parse w =
        Settled (set_innerHTML complianceResult
          (lit ''<div class=\"error\">Schema and Query cannot be empty.</div>'') w)
      \<and> journal (world_of (checkComplianceBtn_click generateContentStream marked_parse w)) =
          journal w @ [Set_innerHTML complianceResult
            (lit ''<div class=\"error\">Schema and Query cannot be empty.</div>'')]
      \<and> requests (journal (world_of (checkComplianceBtn_click generateContentStream marked_parse w)))
          = requests (journal w))
   \<and> (whitespace_only (input_value (dom w schemaInputClassifier))
      \<or> whitespace_only (input_value (dom w sampleInput)) \<longrightarrow>
      classifyDataBtn_click generateContentStream marked_parse w =
        Settled (set_innerHTML classifierResult
          (lit ''<div class=\"error\">Schema and Data Sample cannot be empty.</div>'') w)
      \<and> journal (world_of (classifyDataBtn_click generateContentStream marked_parse w)) =
          journal w @ [Set_innerHTML classifierResult
            (lit ''<div class=\"error\">Schema and Data Sample cannot be empty.</div>'')]
      \<and> requests (journal (world_of (classifyDataBtn_click generateContentStream marked_parse w)))
          = requests (journal w))"
  by (simp add: checkComplianceBtn_click_def classifyDataBtn_click_def Let_def
        not_string_def trim_Nil_iff)

text \<open>A schema of two spaces with a query, and a schema with a sample that is a line
  feed.\<close>

lemma example_inputs_values:
  "input_value (dom example_inputs schemaInputCompliance) = lit ''  ''"
  "input_value (dom example_inputs queryInput) = lit ''SELECT 1''"
  "input_value (dom example_inputs schemaInputClassifier) = lit ''{}''"
  "input_value (dom example_inputs sampleInput) = [0x0A]"
  "journal example_inputs =
     [Set_value schemaInputCompliance (lit ''  ''), Set_value queryInput (lit ''SELECT 1''),
      Set_value schemaInputClassifier (lit ''{}''), Set_value sampleInput [0x0A]]"
  by (simp_all add: example_inputs_def example_page_def)

theorem blank_input_is_rejected_without_request_witness:
  "whitespace_only (lit ''  '') \<and> whitespace_only [0x0A]
   \<and> checkComplianceBtn_click (\<lambda>m p. Stream [] Completed) (\<lambda>s. s) example_inputs =
       Settled (set_innerHTML complianceResult
         (lit ''<div class=\"error\">Schema and Query cannot be empty.</div>'') example_inputs)
   \<and> requests (journal (world_of
         (checkComplianceBtn_click (\<lambda>m p. Stream [] Completed) (\<lambda>s. s) example_inputs))) = []
   \<and> classifyDataBtn_click (\<lambda>m p. Stream [] Completed) (\<lambda>s. s) example_inputs =
       Settled (set_innerHTML classifierResult
         (lit ''<div class=\"error\">Schema and Data Sample cannot be empty.</div>'') example_inputs)
   \<and> requests (journal (world_of
         (classifyDataBtn_click (\<lambda>m p. Stream [] Completed) (\<lambda>s. s) example_inputs))) = []"
proof -
  have 1: "whitespace_only (lit ''  '')"
    by (simp add: whitespace_only_def lit_def is_white_space_def)
  have 2: "whitespace_only [0x0A]"
    by (simp add: whitespace_only_def is_white_space_def)
  show ?thesis
    using 1 2 blank_input_is_rejected_without_request
      [of example_inputs "\<lambda>m p. Stream [] Completed" "\<lambda>s. s"]
    by (simp add: example_inputs_values)
qed

lemma checkComplianceBtn_click_valid:
  assumes "\<not> whitespace_only (input_value (dom w schemaInputCompliance))"
    and "\<not> whitespace_only (input_value (dom w queryInput))"
  shows "checkComplianceBtn_click gen m w =
     streamResponse gen m
       (compliance_prompt (input_value (dom w schemaInputCompliance)) (input_value (dom w queryInput)))
       complianceResult checkComplianceBtn w"
  using assms
  by (simp add: checkComplianceBtn_click_def Let_def not_string_def trim_Nil_iff)

text \<open>
  Claim C5. For schema and query strings that are not blank, the prompt that the
  compliance click handler sends is the fixed template with the two strings put in
  unchanged: it starts with the template's head, ends with its tail, and contains the
  schema, the template's middle and the query.
\<close>

theorem compliance_prompt_embeds_inputs:
  assumes "\<not> whitespace_only schema" and "\<not> whitespace_only query"
    and "input_value (dom w schemaInputCompliance) = schema"
    and "input_value (dom w queryInput) = query"
  shows "requests (journal (world_of (checkComplianceBtn_click generateContentStream marked_parse w)))
           = requests (journal w) @ [(model, compliance_prompt schema query)]
         \<and> compliance_prompt schema query =
             compliance_head @ schema @ compliance_middle @ query @ compliance_tail
         \<and> sublist schema (compliance_prompt schema query)
         \<and> sublist query (compliance_prompt schema query)
         \<and> prefix compliance_head (compliance_prompt schema query)
         \<and> sublist compliance_middle (compliance_prompt schema query)
         \<and> suffix compliance_tail (compliance_prompt schema query)"
proof -
  have 1: "sublist schema (compliance_head @ schema @ compliance_middle @ query @ compliance_tail)"
    by (rule sublist_appendI)
  have 2: "sublist query ((compliance_head @ schema @ compliance_middle) @ query @ compliance_tail)"
    by (rule sublist_appendI)
  have 3: "sublist compliance_middle
      ((compliance_head @ schema) @ compliance_middle @ query @ compliance_tail)"
    by (rule sublist_appendI)
  have 4: "suffix compliance_tail
      ((compliance_head @ schema @ compliance_middle @ query) @ compliance_tail)"
    by (rule suffixI) simp
  show ?thesis
    using assms 1 2 3 4
    by (simp add: checkComplianceBtn_click_valid streamResponse_requests compliance_prompt_def)
qed

theorem compliance_prompt_embeds_inputs_witness:
  "\<not> whitespace_only (lit ''{\"a\": 1}'') \<and> \<not> whitespace_only (lit ''SELECT a FROM t'')
   \<and> requests (journal (world_of
         (checkComplianceBtn_click (\<lambda>m p. Stream [] Completed) (\<lambda>s. s) example_query)))
       = [(model, compliance_prompt (lit ''{\"a\": 1}'') (lit ''SELECT a FROM t''))]
   \<and> compliance_prompt (lit ''{\"a\": 1}'') (lit ''SELECT a FROM t'') =
       compliance_head @ lit ''{\"a\": 1}'' @ compliance_middle @ lit ''SELECT a FROM t''
         @ compliance_tail
   \<and> sublist (lit ''{\"a\": 1}'') (compliance_prompt (lit ''{\"a\": 1}'') (lit ''SELECT a FROM t''))
   \<and> sublist (lit ''SELECT a FROM t'')
         (compliance_prompt (lit ''{\"a\": 1}'') (lit ''SELECT a FROM t''))"
proof -
  have 1: "\<not> whitespace_only (lit ''{\"a\": 1}'')"
    by (simp add: whitespace_only_def lit_def is_white_space_def)
  have 2: "\<not> whitespace_only (lit ''SELECT a FROM t'')"
    by (simp add: whitespace_only_def lit_def is_white_space_def)
  have 3: "input_value (dom example_query schemaInputCompliance) = lit ''{\"a\": 1}''"
    by (simp add: example_query_def)
  have 4: "input_value (dom example_query queryInput) = lit ''SELECT a FROM t''"
    by (simp add: example_query_def)
  have 5: "journal example_query =
      [Set_value schemaInputCompliance (lit ''{\"a\": 1}''), Set_value queryInput (lit ''SELECT a FROM t'')]"
    by (simp add: example_query_def example_page_def)
  show ?thesis
    using 1 2 compliance_prompt_embeds_inputs
      [OF 1 2 3 4, of "\<lambda>m p. Stream [] Completed" "\<lambda>s. s"]
    by (auto simp add: 5)
qed


section \<open>The file upload handler\<close>

text \<open>
  Claim C10. When the change event carries no file (the file list is missing or
  empty), the handler returns the world as it was: the schema field, the sample field
  and the result element are not written, and the parsing library is not called.
\<close>

theorem no_file_selected_changes_nothing:
  "fileUpload_change parse unparse None w = w
   \<and> fileUpload_change parse unparse (Some []) w = w"
  by (simp add: fileUpload_change_def)

text \<open>
  Claim C7. When parsing the uploaded file fails, the handler writes an error message
  with the failure's description to the classifier's result element, and the schema
  field and the sample field keep the values they had.
\<close>

theorem parse_failure_keeps_fields:
  assumes "parse file \<lparr>header = True, preview = 5\<rparr> = Inl error"
  shows "innerHTML (dom (fileUpload_change parse unparse (Some (file # others)) w) classifierResult)
           = lit ''<div class=\"error\">Error parsing file: '' @ message error @ lit ''</div>''
         \<and> input_value (dom (fileUpload_change parse unparse (Some (file # others)) w) schemaInputClassifier)
           = input_value (dom w schemaInputClassifier)
         \<and> input_value (dom (fileUpload_change parse unparse (Some (file # others)) w) sampleInput)
           = input_value (dom w sampleInput)"
  using assms by (simp add: fileUpload_change_def Let_def on_error_def)

theorem parse_failure_keeps_fields_witness:
  "innerHTML (dom (fileUpload_change (\<lambda>f c. Inl (Error (lit ''bad file''))) (\<lambda>rows. [])
       (Some [example_file]) example_classifier_inputs) classifierResult)
     = lit ''<div class=\"error\">Error parsing file: bad file</div>''
   \<and> input_value (dom (fileUpload_change (\<lambda>f c. Inl (Error (lit ''bad file''))) (\<lambda>rows. [])
       (Some [example_file]) example_classifier_inputs) schemaInputClassifier) = lit ''{}''
   \<and> input_value (dom (fileUpload_change (\<lambda>f c. Inl (Error (lit ''bad file''))) (\<lambda>rows. [])
       (Some [example_file]) example_classifier_inputs) sampleInput) = lit ''x,y''"
  using parse_failure_keeps_fields
    [of "\<lambda>f c. Inl (Error (lit ''bad file''))" example_file "Error (lit ''bad file'')"
        "\<lambda>rows. []" "[]" example_classifier_inputs]
  by (simp add: example_classifier_inputs_def lit_def)

lemma fileUpload_change_complete:
  assumes "parse file \<lparr>header = True, preview = 5\<rparr> = Inr results"
  shows "fileUpload_change parse unparse (Some (file # others)) w =
     set_value sampleInput (unparse (data results))
       (set_value schemaInputClassifier (JSON_stringify_2 (schema_object file results))
          (call (Papa_parse_call file \<lparr>header = True, preview = 5\<rparr>) w))"
  using assms by (simp add: fileUpload_change_def Let_def complete_def)

lemma Papa_parse_Inr:
  assumes "Papa_parse file config = Inr results"
  shows "\<exists>fs. meta_fields results = Some fs" and "length (data results) \<le> preview config"
  using assms
  by (auto simp add: Papa_parse_def split: file_body.splits list.splits)

lemma Papa_unparse_records_length: "length (Papa_unparse_records rows) \<le> 1 + length rows"
  by (simp add: Papa_unparse_records_def split: list.split)

text \<open>
  Claim C6. For every uploaded file that is parsed, the schema object has a
  \<^verbatim>\<open>fields\<close> list with one entry per parsed header name, in order, each
  \<^verbatim>\<open>{name: <header>, type: "unknown"}\<close>; the schema field receives its
  serialisation; and the sample is the re-serialisation of at most 5 data rows, at
  most 5 records after the header.
\<close>

theorem extractor_fields_and_sample:
  assumes "Papa_parse file \<lparr>header = True, preview = 5\<rparr> = Inr results"
  shows "\<exists>fs. meta_fields results = Some fs
           \<and> schema_object file results =
               Obj [(lit ''name'', Str (name file)),
                    (lit ''fields'',
                       Arr (map (\<lambda>f. Obj [(lit ''name'', Str f), (lit ''type'', Str (lit ''unknown''))]) fs))]
           \<and> input_value (dom (fileUpload_change Papa_parse Papa_unparse (Some (file # others)) w)
                 schemaInputClassifier)
               = JSON_stringify_2 (schema_object file results)
           \<and> input_value (dom (fileUpload_change Papa_parse Papa_unparse (Some (file # others)) w)
                 sampleInput)
               = Papa_unparse (data results)
           \<and> length (data results) \<le> 5
           \<and> length (Papa_unparse_records (data results)) \<le> 1 + 5"
proof -
  from Papa_parse_Inr [OF assms] obtain fs where fs: "meta_fields results = Some fs"
    and len: "length (data results) \<le> 5"
    by auto
  have "length (Papa_unparse_records (data results)) \<le> 1 + length (data results)"
    by (rule Papa_unparse_records_length)
  with len have rec: "length (Papa_unparse_records (data results)) \<le> 1 + 5" by simp
  show ?thesis
    using fs len rec
    by (simp add: fileUpload_change_complete [of Papa_parse "file" results, OF assms]
          schema_object_def)
qed

text \<open>A file with the header \<^verbatim>\<open>a,b\<close> and six data rows: two fields, five data rows
  kept, six records in the sample.\<close>

lemma example_file_parsed:
  "Papa_parse example_file \<lparr>header = True, preview = 5\<rparr> = Inr example_results"
  by (simp add: Papa_parse_def example_file_def example_results_def)

theorem extractor_fields_and_sample_witness:
  "Papa_parse example_file \<lparr>header = True, preview = 5\<rparr> = Inr example_results
   \<and> schema_object example_file example_results =
       Obj [(lit ''name'', Str (lit ''t.csv'')),
            (lit ''fields'',
               Arr [Obj [(lit ''name'', Str (lit ''a'')), (lit ''type'', Str (lit ''unknown''))],
                    Obj [(lit ''name'', Str (lit ''b'')), (lit ''type'', Str (lit ''unknown''))]])]
   \<and> input_value (dom (fileUpload_change Papa_parse Papa_unparse (Some [example_file]) example_page)
         schemaInputClassifier)
       = JSON_stringify_2 (schema_object example_file example_results)
   \<and> input_value (dom (fileUpload_change Papa_parse Papa_unparse (Some [example_file]) example_page)
         sampleInput)
       = Papa_unparse (data example_results)
   \<and> length (data example_results) = 5
   \<and> length (Papa_unparse_records (data example_results)) = 6"
proof -
  have 1: "length (data example_results) = 5"
    by (simp add: example_results_def)
  have 2: "length (Papa_unparse_records (data example_results)) = 6"
    by (simp add: example_results_def Papa_unparse_records_def)
  have 3: "meta_fields example_results = Some [lit ''a'', lit ''b'']"
    by (simp add: example_results_def)
  have 4: "name example_file = lit ''t.csv''"
    by (simp add: example_file_def)
  show ?thesis
    using extractor_fields_and_sample [OF example_file_parsed, of "[]" example_page]
    by (auto simp add: example_file_parsed 1 2 3 4)
qed


section \<open>Tab navigation\<close>

lemma class_names_distinct:
  "lit ''active'' \<noteq> lit ''tab-button''" "lit ''active'' \<noteq> lit ''tab-content''"
  "lit ''tab-button'' \<noteq> lit ''tab-content''" "lit ''true'' \<noteq> lit ''false''"
  by (simp_all add: lit_def)

lemma has_class_add:
  "has_class k (classList_add c n) \<longleftrightarrow> k = c \<or> has_class k n"
  by (auto simp add: has_class_def classList_add_def)

lemma has_class_remove:
  "has_class k (classList_remove c n) \<longleftrightarrow> k \<noteq> c \<and> has_class k n"
  by (auto simp add: has_class_def classList_remove_def)

lemma has_class_setAttribute: "has_class k (setAttribute a v n) \<longleftrightarrow> has_class k n"
  by (simp add: has_class_def setAttribute_def)

lemma attributes_add: "attributes (classList_add c n) = attributes n"
  by (simp add: classList_add_def)

lemma attributes_remove: "attributes (classList_remove c n) = attributes n"
  by (simp add: classList_remove_def)

lemma attributes_setAttribute: "attributes (setAttribute a v n) = (attributes n)(a \<mapsto> v)"
  by (simp add: setAttribute_def)

lemma forEach_apply:
  "querySelectorAll_forEach c f d e = (if has_class c (d e) then f (d e) else d e)"
  by (simp add: querySelectorAll_forEach_def has_class_def)

lemmas node_ops = has_class_add has_class_remove has_class_setAttribute
  attributes_add attributes_remove attributes_setAttribute forEach_apply

text \<open>What \<open>switchTab\<close> does to the classes and to \<^verbatim>\<open>aria-selected\<close> of any element.\<close>

lemma switchTab_other_class:
  assumes "k \<noteq> lit ''active''"
  shows "has_class k (dom (switchTab t c w) e) \<longleftrightarrow> has_class k (dom w e)"
  using assms by (simp add: switchTab_def Let_def node_ops)

lemma switchTab_active:
  "has_class (lit ''active'') (dom (switchTab t c w) e) \<longleftrightarrow>
     e = t \<or> e = c
     \<or> (has_class (lit ''active'') (dom w e)
        \<and> \<not> has_class (lit ''tab-button'') (dom w e)
        \<and> \<not> has_class (lit ''tab-content'') (dom w e))"
  by (auto simp add: switchTab_def Let_def node_ops)

lemma switchTab_aria_selected:
  "attributes (dom (switchTab t c w) e) (lit ''aria-selected'') =
     (if e = t then Some (lit ''true'')
      else if has_class (lit ''tab-button'') (dom w e) then Some (lit ''false'')
      else attributes (dom w e) (lit ''aria-selected''))"
  by (simp add: switchTab_def Let_def node_ops)

lemma click_tab_switchTab: "click_tab m w = switchTab (tab_of m) (content_of m) w"
  by (cases m) (simp_all add: tabCompliance_click_def tabClassifier_click_def)

lemma click_tab_markup: "page_markup (dom (click_tab m w)) \<longleftrightarrow> page_markup (dom w)"
  by (simp add: page_markup_def click_tab_switchTab switchTab_other_class class_names_distinct [symmetric])

lemma clicks_markup: "page_markup (dom (fold click_tab ms w)) \<longleftrightarrow> page_markup (dom w)"
  by (induction ms arbitrary: w) (simp_all add: click_tab_markup)

lemma tab_content_distinct:
  assumes "page_markup d"
  shows "\<not> has_class (lit ''tab-button'') (d (content_of m))"
    and "\<not> has_class (lit ''tab-content'') (d (tab_of m))"
    and "has_class (lit ''tab-button'') (d (tab_of m))"
    and "has_class (lit ''tab-content'') (d (content_of m))"
  using assms by (cases m; simp add: page_markup_def)+

lemma click_tab_exactly_one:
  assumes "page_markup (dom w)"
  shows "(\<forall>e. has_class (lit ''tab-button'') (dom (click_tab m w) e) \<longrightarrow>
            (if e = tab_of m then tab_selected (dom (click_tab m w) e)
             else tab_unselected (dom (click_tab m w) e)))"
    and "(\<forall>e. has_class (lit ''tab-content'') (dom (click_tab m w) e) \<longrightarrow>
            (has_class (lit ''active'') (dom (click_tab m w) e) \<longleftrightarrow> e = content_of m))"
  using tab_content_distinct [OF assms, of m]
  by (auto simp add: click_tab_switchTab tab_selected_def tab_unselected_def
        switchTab_active switchTab_aria_selected switchTab_other_class
        class_names_distinct [symmetric])

text \<open>
  Claim C8. After any sequence of tab clicks that ends with a click on the tab of mode
  \<open>m\<close>, among the elements of class \<^verbatim>\<open>tab-button\<close> exactly the clicked tab
  button is marked active and selected and every other one is unmarked, and among the
  elements of class \<^verbatim>\<open>tab-content\<close> exactly the panel of \<open>m\<close> is active.
\<close>

theorem tab_switch_marks_exactly_one:
  assumes "page_markup (dom w)"
  shows "page_markup (dom (fold click_tab (clicks @ [m]) w))
    \<and> (\<forall>e. has_class (lit ''tab-button'') (dom (fold click_tab (clicks @ [m]) w) e) \<longrightarrow>
          (if e = tab_of m then tab_selected (dom (fold click_tab (clicks @ [m]) w) e)
           else tab_unselected (dom (fold click_tab (clicks @ [m]) w) e)))
    \<and> (\<forall>e. has_class (lit ''tab-content'') (dom (fold click_tab (clicks @ [m]) w) e) \<longrightarrow>
          (has_class (lit ''active'') (dom (fold click_tab (clicks @ [m]) w) e) \<longleftrightarrow> e = content_of m))
    \<and> {e. has_class (lit ''tab-button'') (dom (fold click_tab (clicks @ [m]) w) e)
            \<and> tab_selected (dom (fold click_tab (clicks @ [m]) w) e)} = {tab_of m}
    \<and> {e. has_class (lit ''tab-content'') (dom (fold click_tab (clicks @ [m]) w) e)
            \<and> has_class (lit ''active'') (dom (fold click_tab (clicks @ [m]) w) e)} = {content_of m}"
proof -
  define v where "v = fold click_tab clicks w"
  have v: "page_markup (dom v)"
    using assms by (simp add: v_def clicks_markup)
  have eq: "fold click_tab (clicks @ [m]) w = click_tab m v"
    by (simp add: v_def)
  have m': "page_markup (dom (click_tab m v))"
    using v by (simp add: click_tab_markup)
  note one = click_tab_exactly_one [OF v, of m]
  have tabs: "{e. has_class (lit ''tab-button'') (dom (click_tab m v) e)
            \<and> tab_selected (dom (click_tab m v) e)} = {tab_of m}"
    using one(1) tab_content_distinct(3) [OF m', of m]
    by (auto simp add: tab_selected_def tab_unselected_def split: if_splits)
  have panels: "{e. has_class (lit ''tab-content'') (dom (click_tab m v) e)
            \<and> has_class (lit ''active'') (dom (click_tab m v) e)} = {content_of m}"
    using one(2) tab_content_distinct(4) [OF m', of m]
    by auto
  show ?thesis
    unfolding eq using m' one tabs panels by simp
qed

text \<open>The classifier tab, then the compliance tab.\<close>

lemma example_page_markup: "page_markup (dom example_page)"
  by (simp add: page_markup_def example_page_def has_class_def empty_node_def lit_def)

theorem tab_switch_marks_exactly_one_witness:
  "page_markup (dom example_page)
   \<and> tab_selected (dom (fold click_tab [Classifier, Compliance] example_page) tabCompliance)
   \<and> tab_unselected (dom (fold click_tab [Classifier, Compliance] example_page) tabClassifier)
   \<and> has_class (lit ''active'') (dom (fold click_tab [Classifier, Compliance] example_page) contentCompliance)
   \<and> \<not> has_class (lit ''active'') (dom (fold click_tab [Classifier, Compliance] example_page) contentClassifier)
   \<and> {e. has_class (lit ''tab-button'') (dom (fold click_tab [Classifier, Compliance] example_page) e)
          \<and> tab_selected (dom (fold click_tab [Classifier, Compliance] example_page) e)}
       = {tabCompliance}
   \<and> {e. has_class (lit ''tab-content'') (dom (fold click_tab [Classifier, Compliance] example_page) e)
          \<and> has_class (lit ''active'') (dom (fold click_tab [Classifier, Compliance] example_page) e)}
       = {contentCompliance}"
proof -
  note t = tab_switch_marks_exactly_one [OF example_page_markup, of "[Classifier]" Compliance]
  from t have m: "page_markup (dom (fold click_tab ([Classifier] @ [Compliance]) example_page))"
    by simp
  from t have tabs: "\<And>e. has_class (lit ''tab-button'')
        (dom (fold click_tab ([Classifier] @ [Compliance]) example_page) e) \<Longrightarrow>
      (if e = tab_of Compliance
       then tab_selected (dom (fold click_tab ([Classifier] @ [Compliance]) example_page) e)
       else tab_unselected (dom (fold click_tab ([Classifier] @ [Compliance]) example_page) e))"
    by blast
  from t have panels: "\<And>e. has_class (lit ''tab-content'')
        (dom (fold click_tab ([Classifier] @ [Compliance]) example_page) e) \<Longrightarrow>
      (has_class (lit ''active'') (dom (fold click_tab ([Classifier] @ [Compliance]) example_page) e)
       \<longleftrightarrow> e = content_of Compliance)"
    by blast
  have a: "tab_selected (dom (fold click_tab ([Classifier] @ [Compliance]) example_page) tabCompliance)"
    using tabs [of tabCompliance] m by (simp add: page_markup_def)
  have b: "tab_unselected (dom (fold click_tab ([Classifier] @ [Compliance]) example_page) tabClassifier)"
    using tabs [of tabClassifier] m by (simp add: page_markup_def)
  have c: "has_class (lit ''active'')
      (dom (fold click_tab ([Classifier] @ [Compliance]) example_page) contentCompliance)"
    using panels [of contentCompliance] m by (simp add: page_markup_def)
  have d: "\<not> has_class (lit ''active'')
      (dom (fold click_tab ([Classifier] @ [Compliance]) example_page) contentClassifier)"
    using panels [of contentClassifier] m by (simp add: page_markup_def)
  show ?thesis
    using example_page_markup a b c d t by simp
qed


section \<open>Start-up\<close>

lemma dispatch_no_listeners:
  assumes "listeners w = []"
  shows "dispatch L target ev w = w"
  using assms by (simp add: dispatch_def)

text \<open>
  Claim C9. When the API key is absent (undefined or empty), start-up replaces the
  content of the document body by the static error message and throws; no listener is
  registered and no request is sent, so that on a page without other listeners no
  event changes anything.
\<close>

theorem missing_api_key_halts_startup:
  assumes "API_KEY = None \<or> API_KEY = Some []"
  shows "main API_KEY w =
           (set_innerHTML document_body (lit ''<div class=\"error\">Missing API Key!</div>'') w,
            Throw (Error (lit ''Missing API Key'')))
    \<and> innerHTML (dom (fst (main API_KEY w)) document_body) =
         lit ''<div class=\"error\">Missing API Key!</div>''
    \<and> listeners (fst (main API_KEY w)) = listeners w
    \<and> requests (journal (fst (main API_KEY w))) = requests (journal w)
    \<and> (listeners w = [] \<longrightarrow>
         (\<forall>L target ev. dispatch L target ev (fst (main API_KEY w)) = fst (main API_KEY w)))"
  using assms
  by (auto simp add: main_def not_string_or_undefined_def not_string_def dispatch_no_listeners)

theorem missing_api_key_halts_startup_witness:
  "main None example_page =
     (set_innerHTML document_body (lit ''<div class=\"error\">Missing API Key!</div>'') example_page,
      Throw (Error (lit ''Missing API Key'')))
   \<and> innerHTML (dom (fst (main None example_page)) document_body) =
       lit ''<div class=\"error\">Missing API Key!</div>''
   \<and> listeners (fst (main None example_page)) = []
   \<and> requests (journal (fst (main None example_page))) = []
   \<and> dispatch \<lparr>lib_generateContentStream = (\<lambda>m p. Stream [] Completed), lib_marked_parse = (\<lambda>s. s),
                lib_parse = (\<lambda>f c. Inl (Error [])), lib_unparse = (\<lambda>rows. [])\<rparr>
        checkComplianceBtn \<lparr>event_type = lit ''click'', target_files = None\<rparr>
        (fst (main None example_page)) = fst (main None example_page)"
proof -
  have l: "listeners example_page = []" and j: "journal example_page = []"
    by (simp_all add: example_page_def)
  have k: "None = None \<or> None = Some ([] :: jsstring)"
    by simp
  note t = missing_api_key_halts_startup [OF k, of example_page]
  from t l have d: "dispatch L target ev (fst (main None example_page)) = fst (main None example_page)"
    for L target ev
    by blast
  from t l j d show ?thesis
    by simp
qed

text \<open>With a key, start-up registers the five listeners.\<close>

lemma main_wires_listeners:
  assumes "API_KEY = Some k" and "k \<noteq> []"
  shows "main API_KEY w =
           (w\<lparr>listeners := listeners w @
                [(tabCompliance, lit ''click'', Switch_to_compliance),
                 (tabClassifier, lit ''click'', Switch_to_classifier),
                 (checkComplianceBtn, lit ''click'', Check_compliance),
                 (fileUpload, lit ''change'', File_change),
                 (classifyDataBtn, lit ''click'', Classify_data)]\<rparr>, Normal)"
  using assms
  by (simp add: main_def not_string_or_undefined_def not_string_def addEventListener_def Let_def)

end
